theory Spec2Isabelle
  imports Main
begin

text \<open>
  A model of \<^verbatim>\<open>lib/util/profile/environment.js\<close> of the Azure cross-platform command
  line: the registry of endpoint parameters, the \<^verbatim>\<open>Environment\<close> class with its accessors,
  the two built-in public environments, and the login operation \<^verbatim>\<open>addAccount\<close>.
  Functions of the module keep their names. A function that can throw returns
  \<open>error + 'a\<close>; the process environment, the constants module and the collaborators
  from other modules are arguments. The functions that go through the URL library
  return an option around their result: \<open>None\<close> where the model of that library does
  not cover the URL.
\<close>

section \<open>JavaScript values and objects\<close>

text \<open>
  The module \<^verbatim>\<open>lib/util/profile/environment.js\<close> is dynamically typed. Its behaviour
  depends on which values are \<^emph>\<open>truthy\<close> (operators \<^verbatim>\<open>||\<close>, \<^verbatim>\<open>!\<close>, \<^verbatim>\<open>?:\<close>, \<^verbatim>\<open>if\<close>) and on the
  difference between \<^verbatim>\<open>null\<close> and \<^verbatim>\<open>undefined\<close> (the test \<^verbatim>\<open>val === null\<close>), so values
  are modelled by a datatype that keeps these apart. \<open>JObj\<close> is an opaque object
  reference (an \<^verbatim>\<open>Error\<close>, a token): always truthy. Numbers do not occur in the module
  and are left out.
\<close>

datatype jsval = JUndefined | JNull | JBool bool | JStr string | JObj nat

fun truthy :: "jsval \<Rightarrow> bool" where
  "truthy JUndefined = False"
| "truthy JNull = False"
| "truthy (JBool b) = b"
| "truthy (JStr s) = (s \<noteq> [])"
| "truthy (JObj r) = True"

text \<open>\<^verbatim>\<open>a || b\<close>: the left operand when it is truthy, else the right one.\<close>

definition js_or :: "jsval \<Rightarrow> jsval \<Rightarrow> jsval" where
  "js_or a b = (if truthy a then a else b)"

text \<open>
  A plain object is a finite map from property names to values; reading a property that
  the object does not have gives \<^verbatim>\<open>undefined\<close>.
\<close>

type_synonym jsobj = "string \<rightharpoonup> jsval"

definition js_get :: "jsobj \<Rightarrow> string \<Rightarrow> jsval" where
  "js_get obj k = (case obj k of None \<Rightarrow> JUndefined | Some v \<Rightarrow> v)"

text \<open>
  \<^verbatim>\<open>process.env\<close>: every variable that is set holds a string (possibly the empty one);
  \<^verbatim>\<open>process.env[k]\<close> is \<^verbatim>\<open>undefined\<close> for a variable that is not set.
\<close>

type_synonym process_env = "string \<rightharpoonup> string"

definition process_env_get :: "process_env \<Rightarrow> string \<Rightarrow> jsval" where
  "process_env_get penv k = (case penv k of None \<Rightarrow> JUndefined | Some s \<Rightarrow> JStr s)"

subsection \<open>The underscore helpers the module calls\<close>

text \<open>
  \<^verbatim>\<open>_.defaults(obj, source)\<close> assigns \<^verbatim>\<open>source[k]\<close> to every property \<^verbatim>\<open>k\<close> of \<^verbatim>\<open>source\<close> that
  is \<^verbatim>\<open>undefined\<close> in \<^verbatim>\<open>obj\<close>. (Older releases of the library also fill a property that
  is \<^verbatim>\<open>null\<close>; the only source this module passes maps every key to \<^verbatim>\<open>null\<close>, for which
  both give the same object.)
  \<^verbatim>\<open>_.extend(obj, source)\<close> copies every property of \<^verbatim>\<open>source\<close> over \<^verbatim>\<open>obj\<close>.
  \<^verbatim>\<open>_.map(list, f)\<close> maps over an array and gives \<^verbatim>\<open>[]\<close> for \<^verbatim>\<open>null\<close> or \<^verbatim>\<open>undefined\<close>.
\<close>

definition underscore_defaults :: "jsobj \<Rightarrow> jsobj \<Rightarrow> jsobj" where
  "underscore_defaults obj source =
     (\<lambda>k. case source k of
            None \<Rightarrow> obj k
          | Some d \<Rightarrow> (if js_get obj k = JUndefined then Some d else obj k))"

definition underscore_extend :: "jsobj \<Rightarrow> jsobj \<Rightarrow> jsobj" where
  "underscore_extend obj source = obj ++ source"

definition underscore_map :: "'a list option \<Rightarrow> ('a \<Rightarrow> 'b) \<Rightarrow> 'b list" where
  "underscore_map xs f = (case xs of None \<Rightarrow> [] | Some ys \<Rightarrow> map f ys)"

section \<open>Endpoint parameters\<close>

text \<open>
  \<^verbatim>\<open>function EnvironmentParameter(name, environmentVariable, description)\<close>. The
  description is passed through the locale lookup \<^verbatim>\<open>$\<close>, which is outside this module; the
  field keeps the text handed to it.
\<close>

record EnvironmentParameter =
  param_name :: string
  environmentVariable :: string
  description :: string

definition portalUrl :: EnvironmentParameter where
  "portalUrl = \<lparr>param_name = ''portalUrl'', environmentVariable = ''AZURE_PORTAL_URL'',
     description = ''the management portal URL''\<rparr>"

definition publishingProfileUrl :: EnvironmentParameter where
  "publishingProfileUrl = \<lparr>param_name = ''publishingProfileUrl'',
     environmentVariable = ''AZURE_PUBLISHINGPROFILE_URL'',
     description = ''the publish settings file URL''\<rparr>"

definition managementEndpointUrl :: EnvironmentParameter where
  "managementEndpointUrl = \<lparr>param_name = ''managementEndpointUrl'',
     environmentVariable = ''AZURE_MANAGEMENTENDPOINT_URL'',
     description = ''the management service endpoint''\<rparr>"

definition resourceManagerEndpointUrl :: EnvironmentParameter where
  "resourceManagerEndpointUrl = \<lparr>param_name = ''resourceManagerEndpointUrl'',
     environmentVariable = ''AZURE_RESOURCEMANAGERENDPOINT_URL'',
     description = ''the resource management endpoint''\<rparr>"

definition sqlManagementEndpointUrl :: EnvironmentParameter where
  "sqlManagementEndpointUrl = \<lparr>param_name = ''sqlManagementEndpointUrl'',
     environmentVariable = ''AZURE_SQL_MANAGEMENTENDPOINT_URL'',
     description = ''the sql server management endpoint for mobile commands''\<rparr>"

definition sqlServerHostnameSuffix :: EnvironmentParameter where
  "sqlServerHostnameSuffix = \<lparr>param_name = ''sqlServerHostnameSuffix'',
     environmentVariable = ''AZURE_SQL_SERVER_HOSTNAME_SUFFIX'',
     description = ''the dns suffix for sql servers''\<rparr>"

definition activeDirectoryEndpointUrl :: EnvironmentParameter where
  "activeDirectoryEndpointUrl = \<lparr>param_name = ''activeDirectoryEndpointUrl'',
     environmentVariable = ''AZURE_ACTIVEDIRECTORY_ENDPOINT_URL'',
     description = ''the Active Directory login endpoint''\<rparr>"

definition activeDirectoryResourceId :: EnvironmentParameter where
  "activeDirectoryResourceId = \<lparr>param_name = ''activeDirectoryResourceId'',
     environmentVariable = ''AZURE_ACTIVEDIRECTORY_RESOURCE_ID'',
     description = ''The resource ID to obtain AD tokens for''\<rparr>"

definition commonTenantName :: EnvironmentParameter where
  "commonTenantName = \<lparr>param_name = ''commonTenantName'',
     environmentVariable = ''AZURE_ACTIVEDIRECTORY_COMMON_TENANT_NAME'',
     description = ''the Active Directory common tenant name''\<rparr>"

definition galleryEndpointUrl :: EnvironmentParameter where
  "galleryEndpointUrl = \<lparr>param_name = ''galleryEndpointUrl'',
     environmentVariable = ''AZURE_GALLERY_ENDPOINT_URL'',
     description = ''the template gallery endpoint''\<rparr>"

definition activeDirectoryGraphResourceId :: EnvironmentParameter where
  "activeDirectoryGraphResourceId = \<lparr>param_name = ''activeDirectoryGraphResourceId'',
     environmentVariable = ''AZURE_ACTIVEDIRECTORY_GRAPH_RESOURCE_ID'',
     description = ''the Active Directory resource ID''\<rparr>"

definition activeDirectoryGraphApiVersion :: EnvironmentParameter where
  "activeDirectoryGraphApiVersion = \<lparr>param_name = ''activeDirectoryGraphApiVersion'',
     environmentVariable = ''AZURE_ACTIVEDIRECTORY_GRAPH_API_VERSION'',
     description = ''the Active Directory api version''\<rparr>"

text \<open>\<^verbatim>\<open>Environment.parameters\<close>, in the order of the source.\<close>

definition parameters :: "EnvironmentParameter list" where
  "parameters =
     [portalUrl, publishingProfileUrl, managementEndpointUrl, resourceManagerEndpointUrl,
      sqlManagementEndpointUrl, sqlServerHostnameSuffix, activeDirectoryEndpointUrl,
      activeDirectoryResourceId, commonTenantName, galleryEndpointUrl,
      activeDirectoryGraphResourceId, activeDirectoryGraphApiVersion]"

section \<open>Environment\<close>

text \<open>
  An instance has the plain property \<^verbatim>\<open>name\<close> and the object \<^verbatim>\<open>values\<close> captured by the
  constructor. \<^verbatim>\<open>values\<close> is the constructor's argument itself (\<^verbatim>\<open>var values = envData\<close>),
  so it holds every property of \<^verbatim>\<open>envData\<close>, its \<^verbatim>\<open>name\<close> included.
\<close>

record environment =
  name :: jsval
  "values" :: jsobj

text \<open>\<^verbatim>\<open>nulls(properties)\<close>: the object that maps every listed property to \<^verbatim>\<open>null\<close>.\<close>

definition nulls :: "string list \<Rightarrow> jsobj" where
  "nulls properties = foldl (\<lambda>acc p. acc(p \<mapsto> JNull)) Map.empty properties"

text \<open>\<^verbatim>\<open>_.pluck(Environment.parameters, 'name')\<close>.\<close>

definition pluck_name :: "EnvironmentParameter list \<Rightarrow> string list" where
  "pluck_name ps = map param_name ps"

text \<open>
  The constructor. It stores the name, fills the registered parameters that
  \<^verbatim>\<open>envData\<close> leaves undefined with \<^verbatim>\<open>null\<close>, and installs one accessor per parameter and
  the derived properties; it calls no accessor and has no \<^verbatim>\<open>throw\<close>, so it is a total
  function into \<open>environment\<close>.
\<close>

definition Environment :: "jsobj \<Rightarrow> environment" where
  "Environment envData =
     \<lparr>name = js_get envData ''name'',
      values = underscore_defaults envData (nulls (pluck_name parameters))\<rparr>"

text \<open>
  The only \<^verbatim>\<open>throw\<close> of the module: \<^verbatim>\<open>new Error(util.format($('The endpoint field %s is
  not defined in this environment. ...'), self.name))\<close>. The error value carries the
  parameter name that is formatted into the message.
  \<open>UrlTypeError\<close> is the \<^verbatim>\<open>TypeError\<close> of \<^verbatim>\<open>url.parse\<close> on an argument that is not a string.
\<close>

datatype error = EndpointFieldNotDefined string | UrlTypeError

text \<open>
  \<^verbatim>\<open>EnvironmentParameter.prototype.propertyDescriptor(env)\<close> gives the accessor pair
  of one parameter. The getter reads \<^verbatim>\<open>process.env\<close> and \<^verbatim>\<open>env.values\<close>; the setter
  assigns to \<^verbatim>\<open>this.values[self.name]\<close> and to nothing else.
\<close>

definition propertyDescriptor_get ::
  "process_env \<Rightarrow> EnvironmentParameter \<Rightarrow> environment \<Rightarrow> error + jsval" where
  "propertyDescriptor_get penv self env =
     (let val = js_or (process_env_get penv (environmentVariable self))
                      (js_get (values env) (param_name self))
      in if val = JNull then Inl (EndpointFieldNotDefined (param_name self)) else Inr val)"

definition propertyDescriptor_set ::
  "EnvironmentParameter \<Rightarrow> environment \<Rightarrow> jsval \<Rightarrow> environment" where
  "propertyDescriptor_set self this v =
     this\<lparr>values := (values this)(param_name self \<mapsto> v)\<rparr>"

text \<open>
  \<^verbatim>\<open>Environment.publicEnvironments\<close>: the two built-in environments, each made by the
  constructor from an object literal.
\<close>

definition AzureCloud :: environment where
  "AzureCloud = Environment (map_of
     [(''name'', JStr ''AzureCloud''),
      (''portalUrl'', JStr ''http://go.microsoft.com/fwlink/?LinkId=254433''),
      (''publishingProfileUrl'', JStr ''http://go.microsoft.com/fwlink/?LinkId=254432''),
      (''managementEndpointUrl'', JStr ''https://management.core.windows.net''),
      (''resourceManagerEndpointUrl'', JStr ''https://management.azure.com/''),
      (''sqlManagementEndpointUrl'', JStr ''https://management.core.windows.net:8443/''),
      (''sqlServerHostnameSuffix'', JStr ''.database.windows.net''),
      (''galleryEndpointUrl'', JStr ''https://gallery.azure.com/''),
      (''activeDirectoryEndpointUrl'', JStr ''https://login.windows.net''),
      (''activeDirectoryResourceId'', JStr ''https://management.core.windows.net/''),
      (''commonTenantName'', JStr ''common''),
      (''activeDirectoryGraphResourceId'', JStr ''https://graph.windows.net/''),
      (''activeDirectoryGraphApiVersion'', JStr ''2013-04-05'')])"

definition AzureChinaCloud :: environment where
  "AzureChinaCloud = Environment (map_of
     [(''name'', JStr ''AzureChinaCloud''),
      (''portalUrl'', JStr ''http://go.microsoft.com/fwlink/?LinkId=301902''),
      (''publishingProfileUrl'', JStr ''http://go.microsoft.com/fwlink/?LinkID=301774''),
      (''managementEndpointUrl'', JStr ''https://management.core.chinacloudapi.cn''),
      (''resourceManagerEndpointUrl'', JStr ''https://management.chinacloudapi.cn''),
      (''sqlManagementEndpointUrl'', JStr ''https://management.core.chinacloudapi.cn:8443/''),
      (''sqlServerHostnameSuffix'', JStr ''.database.chinacloudapi.cn''),
      (''galleryEndpointUrl'', JStr ''https://gallery.chinacloudapi.cn/''),
      (''activeDirectoryEndpointUrl'', JStr ''https://login.chinacloudapi.cn''),
      (''activeDirectoryResourceId'', JStr ''https://management.core.chinacloudapi.cn/''),
      (''commonTenantName'', JStr ''common''),
      (''activeDirectoryGraphResourceId'', JStr ''https://graph.windows.net/''),
      (''activeDirectoryGraphApiVersion'', JStr ''2013-04-05'')])"

definition publicEnvironments :: "environment list" where
  "publicEnvironments = [AzureCloud, AzureChinaCloud]"

text \<open>
  The getter of \<^verbatim>\<open>isPublicEnvironment\<close>:
  \<^verbatim>\<open>_.chain(Environment.publicEnvironments).pluck('name').contains(this.name).value()\<close>.
  \<^verbatim>\<open>_.contains\<close> compares with \<^verbatim>\<open>===\<close>.
\<close>

definition isPublicEnvironment :: "environment \<Rightarrow> bool" where
  "isPublicEnvironment this = (name this \<in> set (map name publicEnvironments))"

text \<open>\<^verbatim>\<open>toJSON\<close>: \<^verbatim>\<open>_.extend({ name: this.name }, this.values)\<close>.\<close>

definition toJSON :: "environment \<Rightarrow> jsobj" where
  "toJSON this = underscore_extend [''name'' \<mapsto> name this] (values this)"

subsection \<open>The authentication configuration\<close>

text \<open>
  \<^verbatim>\<open>constants.XPLAT_CLI_CLIENT_ID\<close> comes from the module \<^verbatim>\<open>../constants\<close>; the functions
  below take that module as an argument.
\<close>

record constants =
  XPLAT_CLI_CLIENT_ID :: jsval

record auth_config =
  authorityUrl :: jsval
  tenantId :: jsval
  resourceId :: jsval
  clientId :: jsval

text \<open>
  \<^verbatim>\<open>getAuthConfig(tenantId, resourceId)\<close>. The reads \<^verbatim>\<open>this.commonTenantName\<close>,
  \<^verbatim>\<open>this.activeDirectoryResourceId\<close> and \<^verbatim>\<open>this.activeDirectoryEndpointUrl\<close> go through the
  accessors, in this order, and each may throw. The function assigns to its own
  parameters only.
\<close>

definition getAuthConfig ::
  "constants \<Rightarrow> process_env \<Rightarrow> environment \<Rightarrow> jsval \<Rightarrow> jsval \<Rightarrow> error + auth_config" where
  "getAuthConfig consts penv this tenantId0 resourceId0 =
     (case (if \<not> truthy tenantId0 then propertyDescriptor_get penv commonTenantName this
            else Inr tenantId0) of
        Inl e \<Rightarrow> Inl e
      | Inr tenantId1 \<Rightarrow>
          (case (if \<not> truthy resourceId0
                 then propertyDescriptor_get penv activeDirectoryResourceId this
                 else Inr resourceId0) of
             Inl e \<Rightarrow> Inl e
           | Inr resourceId1 \<Rightarrow>
               (case propertyDescriptor_get penv activeDirectoryEndpointUrl this of
                  Inl e \<Rightarrow> Inl e
                | Inr a \<Rightarrow>
                    Inr \<lparr>authorityUrl = a, tenantId = tenantId1, resourceId = resourceId1,
                         clientId = XPLAT_CLI_CLIENT_ID consts\<rparr>)))"

section \<open>The URL library\<close>

text \<open>
  \<^verbatim>\<open>addRealm\<close> calls \<^verbatim>\<open>url.parse(targetUrl, true)\<close> and \<^verbatim>\<open>url.format\<close> of the Node.js
  platform. The model covers the URLs on which the library does no rewriting: plain
  \<^verbatim>\<open>http\<close> and \<^verbatim>\<open>https\<close> URLs \<^verbatim>\<open>scheme://host/path?key=value&...\<close>, written in lower-case
  letters and digits (host labels), letters, digits and \<^verbatim>\<open>- _ . ~\<close> (path segments, keys
  and values), without user information, port, fragment, white space or
  percent-escapes, each key starting with a letter. Both built-in portal URLs are of this
  form. For every other string \<open>url_parse\<close> is \<open>None\<close>: the model does not say what the
  library returns there, and the functions that call it return \<open>None\<close> too. Strings
  are sequences of bytes (UTF-8).
\<close>



text \<open>
  Property assignment \<^verbatim>\<open>obj[k] = v\<close> on an object whose property order matters (here the
  order in which \<^verbatim>\<open>Object.keys\<close> lists the query): an existing property keeps its place,
  a new one goes last.
\<close>

fun obj_set :: "(string \<times> 'v) list \<Rightarrow> string \<Rightarrow> 'v \<Rightarrow> (string \<times> 'v) list" where
  "obj_set [] k v = [(k, v)]"
| "obj_set ((k', v') # kvs) k v =
     (if k' = k then (k, v) # kvs else (k', v') # obj_set kvs k v)"




subsection \<open>The URLs covered\<close>










subsection \<open>Query strings\<close>









subsection \<open>Parsing and formatting\<close>





subsection \<open>Portal URLs\<close>




section \<open>Account login\<close>

text \<open>
  The object literal that \<^verbatim>\<open>processSubscriptions\<close> hands to \<^verbatim>\<open>new Subscription(..., self)\<close>:
  \<^verbatim>\<open>{ id, name, user: { name, tenant, type }, tenantId }\<close>. The field names carry a
  prefix because \<open>id\<close>, \<open>name\<close> and \<open>tenantId\<close> are taken.
\<close>

record subscription_user =
  user_name :: jsval
  user_tenant :: jsval
  user_type :: jsval

record subscription_data =
  sub_id :: jsval
  sub_name :: jsval
  sub_user :: subscription_user
  sub_tenantId :: jsval

text \<open>\<^verbatim>\<open>{ tenantId: tenant, authContext: token }\<close>.\<close>

record tenant_info =
  ti_tenantId :: jsval
  ti_authContext :: jsval

text \<open>
  The collaborators of \<^verbatim>\<open>addAccount\<close> live in other modules (\<^verbatim>\<open>adalAuth\<close>,
  \<^verbatim>\<open>subscriptionUtils\<close>, \<^verbatim>\<open>./subscription\<close>) and are arguments of the model.
  A collaborator that takes a Node-style callback is a function from its arguments to
  the pair \<open>(err, result)\<close> it passes to that callback; it is assumed to call the
  callback exactly once. The raw subscription list is an array of plain objects, or
  absent (\<open>None\<close>) when the collaborator passes none. \<open>Subscription\<close> is the constructor
  of the class \<^verbatim>\<open>Subscription\<close>, applied to the object literal and the environment.
\<close>

record 'sub collaborators =
  normalizeUserName :: "jsval \<Rightarrow> jsval"
  acquireServicePrincipalToken :: "auth_config \<Rightarrow> jsval \<Rightarrow> jsval \<Rightarrow> jsval \<times> jsval"
  getSubscriptions ::
    "environment \<Rightarrow> jsval \<Rightarrow> jsval \<Rightarrow> jsval \<Rightarrow> jsval \<times> jsobj list option"
  getSubscriptionsFromTenants ::
    "environment \<Rightarrow> jsval \<Rightarrow> tenant_info list \<Rightarrow> jsval \<times> jsobj list option"
  Subscription :: "subscription_data \<Rightarrow> environment \<Rightarrow> 'sub"

text \<open>
  What one call of \<^verbatim>\<open>addAccount\<close> does, in order: the calls it makes to the
  callback-taking collaborators, with their arguments, and its calls of the caller's
  \<^verbatim>\<open>callback\<close>: \<open>Callback1 err\<close> for \<^verbatim>\<open>callback(err)\<close> and \<open>Callback2 e subs\<close> for
  \<^verbatim>\<open>callback(e, subs)\<close>.
\<close>

datatype 'sub event =
    Call_getSubscriptions environment jsval jsval jsval
  | Call_acquireServicePrincipalToken auth_config jsval jsval
  | Call_getSubscriptionsFromTenants environment jsval "tenant_info list"
  | Callback1 jsval
  | Callback2 jsval "'sub list"

text \<open>
  The inner function \<^verbatim>\<open>processSubscriptions(err, subscriptions)\<close>; the variables it closes
  over (\<^verbatim>\<open>self\<close>, \<^verbatim>\<open>username\<close>, \<^verbatim>\<open>tenant\<close>, \<^verbatim>\<open>userType\<close>) are arguments.
\<close>

definition processSubscriptions ::
  "'sub collaborators \<Rightarrow> environment \<Rightarrow> jsval \<Rightarrow> jsval \<Rightarrow> jsval \<Rightarrow>
   jsval \<Rightarrow> jsobj list option \<Rightarrow> 'sub event list" where
  "processSubscriptions collab self username tenant userType err subscriptions =
     (if truthy err then [Callback1 err]
      else
        (let subs = underscore_map subscriptions (\<lambda>s.
               Subscription collab
                 \<lparr>sub_id = js_get s ''subscriptionId'',
                  sub_name = js_or (js_get s ''displayName'') (js_get s ''subscriptionName''),
                  sub_user = \<lparr>user_name = username, user_tenant = tenant,
                              user_type = userType\<rparr>,
                  sub_tenantId =
                    (if truthy (js_get s ''activeDirectoryTenantId'')
                     then js_get s ''activeDirectoryTenantId'' else tenant)\<rparr>
                 self)
         in [Callback2 JNull subs]))"

text \<open>
  \<^verbatim>\<open>addAccount(username, password, tenant, loginAsServicePrincipal, callback)\<close>. The result
  is \<open>Inl\<close> when \<^verbatim>\<open>self.getAuthConfig(tenant)\<close> throws (nothing has been called then), and
  otherwise the list of events of the call.
\<close>

definition addAccount ::
  "constants \<Rightarrow> 'sub collaborators \<Rightarrow> process_env \<Rightarrow> environment \<Rightarrow>
   jsval \<Rightarrow> jsval \<Rightarrow> jsval \<Rightarrow> jsval \<Rightarrow> error + 'sub event list" where
  "addAccount consts collab penv self username0 password tenant loginAsServicePrincipal =
     (let username = normalizeUserName collab username0;
          userType = (if truthy loginAsServicePrincipal then JStr ''servicePrincipal''
                      else JStr ''user'')
      in if \<not> truthy loginAsServicePrincipal then
           (case getSubscriptions collab self username password tenant of
              (err, subscriptions) \<Rightarrow>
                Inr (Call_getSubscriptions self username password tenant #
                     processSubscriptions collab self username tenant userType err subscriptions))
         else
           (case getAuthConfig consts penv self tenant JUndefined of
              Inl e \<Rightarrow> Inl e
            | Inr cfg \<Rightarrow>
                (case acquireServicePrincipalToken collab cfg username password of
                   (err, token) \<Rightarrow>
                     Inr (Call_acquireServicePrincipalToken cfg username password #
                          (if truthy err then [Callback1 err]
                           else
                             (let tenantInfo = \<lparr>ti_tenantId = tenant, ti_authContext = token\<rparr>
                              in (case getSubscriptionsFromTenants collab self username [tenantInfo] of
                                    (err2, subscriptions) \<Rightarrow>
                                      Call_getSubscriptionsFromTenants self username [tenantInfo] #
                                      processSubscriptions collab self username tenant userType
                                        err2 subscriptions)))))))"

section \<open>Sequences of setter calls\<close>

text \<open>
  After construction an environment changes only through the setters that the
  constructor installed, one per registered parameter. \<open>apply_sets E updates\<close> is the
  environment after the assignments \<^verbatim>\<open>E[P.name] = v\<close> of the list, in order.
\<close>

definition apply_sets :: "environment \<Rightarrow> (EnvironmentParameter \<times> jsval) list \<Rightarrow> environment" where
  "apply_sets E updates = foldl (\<lambda>E' (P, v). propertyDescriptor_set P E' v) E updates"

section \<open>An example login\<close>

text \<open>
  Test doubles for the collaborators, used in the examples below. The user name
  \<^verbatim>\<open>'Alice'\<close> normalises to \<^verbatim>\<open>'alice'\<close>; token acquisition succeeds for the secret
  \<^verbatim>\<open>'secret'\<close> and reports an error otherwise; the user-credential lookup returns one
  record with a display name and a directory tenant; the tenant lookup returns one
  record with neither for the client \<^verbatim>\<open>'sp1'\<close> and reports an error for any other.
  The \<^verbatim>\<open>Subscription\<close> constructor keeps its two arguments.
\<close>

definition example_constants :: constants where
  "example_constants = \<lparr>XPLAT_CLI_CLIENT_ID = JStr ''client-id''\<rparr>"

definition example_collaborators :: "(subscription_data \<times> environment) collaborators" where
  "example_collaborators =
     \<lparr>normalizeUserName = (\<lambda>u. if u = JStr ''Alice'' then JStr ''alice'' else u),
      acquireServicePrincipalToken =
        (\<lambda>cfg u p. if p = JStr ''secret'' then (JNull, JObj 1) else (JObj 0, JUndefined)),
      getSubscriptions =
        (\<lambda>e u p t. (JNull, Some [map_of [(''subscriptionId'', JStr ''s1''),
                                            (''displayName'', JStr ''Sub1''),
                                            (''activeDirectoryTenantId'', JStr ''tenant1'')]])),
      getSubscriptionsFromTenants =
        (\<lambda>e u tis. if u = JStr ''sp1''
                    then (JNull, Some [map_of [(''subscriptionId'', JStr ''s2'')]])
                    else (JObj 2, None)),
      Subscription = (\<lambda>d e. (d, e))\<rparr>"

definition example_auth_config :: auth_config where
  "example_auth_config =
     \<lparr>authorityUrl = JStr ''https://login.windows.net'', tenantId = JStr ''tenantX'',
      resourceId = JStr ''https://management.core.windows.net/'',
      clientId = JStr ''client-id''\<rparr>"

section \<open>Properties of the parameter accessors\<close>

lemma nulls_snoc: "nulls (ps @ [p]) = (nulls ps)(p \<mapsto> JNull)"
  by (simp add: nulls_def)

lemma nulls_apply: "nulls ps k = (if k \<in> set ps then Some JNull else None)"
  by (induction ps rule: rev_induct) (simp_all add: nulls_snoc, simp add: nulls_def)

lemma values_Environment:
  "values (Environment envData) k =
     (if k \<in> set (pluck_name parameters) \<and> js_get envData k = JUndefined
      then Some JNull else envData k)"
  by (simp add: Environment_def underscore_defaults_def nulls_apply)

lemma distinct_parameter_names: "distinct (map param_name parameters)"
  by (simp add: parameters_def portalUrl_def publishingProfileUrl_def
      managementEndpointUrl_def resourceManagerEndpointUrl_def sqlManagementEndpointUrl_def
      sqlServerHostnameSuffix_def activeDirectoryEndpointUrl_def activeDirectoryResourceId_def
      commonTenantName_def galleryEndpointUrl_def activeDirectoryGraphResourceId_def
      activeDirectoryGraphApiVersion_def)

lemma parameter_name_inj:
  "P \<in> set parameters \<Longrightarrow> Q \<in> set parameters \<Longrightarrow> param_name P = param_name Q \<Longrightarrow> P = Q"
  using distinct_parameter_names by (meson distinct_map inj_onD)

lemma get_env_wins:
  fixes P :: EnvironmentParameter and E :: environment
  shows "penv (environmentVariable P) = Some s \<Longrightarrow> s \<noteq> [] \<Longrightarrow>
   propertyDescriptor_get penv P E = Inr (JStr s)"
  by (simp add: propertyDescriptor_get_def process_env_get_def js_or_def)

lemma get_stored:
  fixes P :: EnvironmentParameter and E :: environment
  shows "penv (environmentVariable P) = None \<or> penv (environmentVariable P) = Some [] \<Longrightarrow>
   propertyDescriptor_get penv P E =
     (if js_get (values E) (param_name P) = JNull
      then Inl (EndpointFieldNotDefined (param_name P))
      else Inr (js_get (values E) (param_name P)))"
  by (auto simp add: propertyDescriptor_get_def process_env_get_def js_or_def)

lemma values_set:
  fixes P :: EnvironmentParameter and E :: environment
  shows "values (propertyDescriptor_set P E v) = (values E)(param_name P \<mapsto> v)"
  by (simp add: propertyDescriptor_set_def)

text \<open>
  \<^bold>\<open>Claim C1.\<close> Let \<open>P\<close> be a registered parameter, let the environment be constructed
  from data that give \<open>P\<close> no value (the property is absent, \<^verbatim>\<open>undefined\<close> or \<^verbatim>\<open>null\<close>), and
  let the environment variable bound to \<open>P\<close> be unset or empty. Then construction succeeds
  and stores \<^verbatim>\<open>null\<close> for \<open>P\<close>; reading \<open>P\<close> fails with the endpoint-not-defined error that
  names \<open>P\<close>; and after the setter of \<open>P\<close> has stored \<^verbatim>\<open>"x"\<close>, reading \<open>P\<close> returns \<^verbatim>\<open>"x"\<close>.
\<close>

theorem unset_parameter_fails_at_read_until_set:
  fixes P :: EnvironmentParameter
  assumes "P \<in> set parameters"
    and "js_get envData (param_name P) = JUndefined \<or> js_get envData (param_name P) = JNull"
    and "penv (environmentVariable P) = None \<or> penv (environmentVariable P) = Some []"
  shows "values (Environment envData) (param_name P) = Some JNull \<and>
         propertyDescriptor_get penv P (Environment envData) =
           Inl (EndpointFieldNotDefined (param_name P)) \<and>
         propertyDescriptor_get penv P
           (propertyDescriptor_set P (Environment envData) (JStr ''x'')) = Inr (JStr ''x'')"
proof -
  have mem: "param_name P \<in> set (pluck_name parameters)"
    using assms(1) by (simp add: pluck_name_def)
  have stored: "values (Environment envData) (param_name P) = Some JNull"
    using assms(2) mem by (auto simp add: values_Environment js_get_def split: option.splits)
  then have rd: "js_get (values (Environment envData)) (param_name P) = JNull"
    by (simp add: js_get_def)
  have fails: "propertyDescriptor_get penv P (Environment envData) =
      Inl (EndpointFieldNotDefined (param_name P))"
    using get_stored [of penv P "Environment envData"] assms(3) rd by simp
  have after: "propertyDescriptor_get penv P
      (propertyDescriptor_set P (Environment envData) (JStr ''x'')) = Inr (JStr ''x'')"
    using get_stored [of penv P "propertyDescriptor_set P (Environment envData) (JStr ''x'')"]
      assms(3)
    by (simp add: values_set js_get_def)
  from stored fails after show ?thesis by blast
qed

theorem unset_parameter_fails_at_read_until_set_witness:
  "portalUrl \<in> set parameters \<and>
   js_get (map_of [(''name'', JStr ''custom'')]) (param_name portalUrl) = JUndefined \<and>
   [''AZURE_PORTAL_URL'' \<mapsto> []] (environmentVariable portalUrl) = Some [] \<and>
   values (Environment (map_of [(''name'', JStr ''custom'')])) (param_name portalUrl) = Some JNull \<and>
   propertyDescriptor_get [''AZURE_PORTAL_URL'' \<mapsto> []] portalUrl
     (Environment (map_of [(''name'', JStr ''custom'')])) =
     Inl (EndpointFieldNotDefined (param_name portalUrl)) \<and>
   propertyDescriptor_get [''AZURE_PORTAL_URL'' \<mapsto> []] portalUrl
     (propertyDescriptor_set portalUrl (Environment (map_of [(''name'', JStr ''custom'')]))
        (JStr ''x'')) = Inr (JStr ''x'')"
proof -
  have h1: "portalUrl \<in> set parameters"
    by (simp add: parameters_def)
  have h2: "js_get (map_of [(''name'', JStr ''custom'')]) (param_name portalUrl) = JUndefined"
    by (simp add: js_get_def portalUrl_def)
  have h3: "[''AZURE_PORTAL_URL'' \<mapsto> []] (environmentVariable portalUrl) = Some []"
    by (simp add: portalUrl_def)
  have c: "values (Environment (map_of [(''name'', JStr ''custom'')])) (param_name portalUrl) =
       Some JNull \<and>
     propertyDescriptor_get [''AZURE_PORTAL_URL'' \<mapsto> []] portalUrl
       (Environment (map_of [(''name'', JStr ''custom'')])) =
       Inl (EndpointFieldNotDefined (param_name portalUrl)) \<and>
     propertyDescriptor_get [''AZURE_PORTAL_URL'' \<mapsto> []] portalUrl
       (propertyDescriptor_set portalUrl (Environment (map_of [(''name'', JStr ''custom'')]))
          (JStr ''x'')) = Inr (JStr ''x'')"
    using unset_parameter_fails_at_read_until_set
      [of portalUrl "map_of [(''name'', JStr ''custom'')]" "[''AZURE_PORTAL_URL'' \<mapsto> []]"]
      h1 h2 h3 by blast
  from h1 h2 h3 c show ?thesis by blast
qed

text \<open>
  \<^bold>\<open>Claim C2\<close> says that a read returns the stored value whenever the environment
  variable is unset or empty. That fails when the stored value is \<^verbatim>\<open>null\<close>: the getter
  throws instead of returning \<^verbatim>\<open>null\<close> (its test \<^verbatim>\<open>val === null\<close>). For an environment built
  from \<^verbatim>\<open>{name: 'custom'}\<close> and an empty process environment, reading \<^verbatim>\<open>portalUrl\<close> is
  an error and not the stored \<^verbatim>\<open>null\<close>.
\<close>

theorem read_of_stored_null_counterexample:
  "Map.empty (environmentVariable portalUrl) = (None :: string option) \<and>
   js_get (values (Environment (map_of [(''name'', JStr ''custom'')]))) (param_name portalUrl) =
     JNull \<and>
   propertyDescriptor_get Map.empty portalUrl (Environment (map_of [(''name'', JStr ''custom'')])) =
     Inl (EndpointFieldNotDefined ''portalUrl'') \<and>
   propertyDescriptor_get Map.empty portalUrl (Environment (map_of [(''name'', JStr ''custom'')])) \<noteq>
     Inr (js_get (values (Environment (map_of [(''name'', JStr ''custom'')]))) (param_name portalUrl))"
  by (simp add: propertyDescriptor_get_def process_env_get_def js_or_def js_get_def
      values_Environment pluck_name_def parameters_def portalUrl_def)

text \<open>
  \<^bold>\<open>Claim C2, amended.\<close> For every parameter \<open>P\<close> and environment \<open>E\<close>: if the environment
  variable bound to \<open>P\<close> is set and non-empty, reading \<open>P\<close> returns that value, whatever the
  stored value is; otherwise reading \<open>P\<close> returns the stored value \<^verbatim>\<open>values[P.name]\<close>, unless
  that value is \<^verbatim>\<open>null\<close>, in which case the read fails with the endpoint-not-defined
  error.
\<close>

theorem read_prefers_environment_variable:
  fixes P :: EnvironmentParameter and E :: environment
  shows "(penv (environmentVariable P) = Some s \<and> s \<noteq> [] \<longrightarrow>
            propertyDescriptor_get penv P E = Inr (JStr s)) \<and>
         (penv (environmentVariable P) = None \<or> penv (environmentVariable P) = Some [] \<longrightarrow>
            propertyDescriptor_get penv P E =
              (if js_get (values E) (param_name P) = JNull
               then Inl (EndpointFieldNotDefined (param_name P))
               else Inr (js_get (values E) (param_name P))))"
  using get_env_wins [of penv P s E] get_stored [of penv P E] by blast

theorem read_prefers_environment_variable_witness:
  "[''AZURE_PORTAL_URL'' \<mapsto> ''http://override.example/''] (environmentVariable portalUrl) =
     Some ''http://override.example/'' \<and>
   js_get (values AzureCloud) (param_name portalUrl) =
     JStr ''http://go.microsoft.com/fwlink/?LinkId=254433'' \<and>
   propertyDescriptor_get [''AZURE_PORTAL_URL'' \<mapsto> ''http://override.example/''] portalUrl
     AzureCloud = Inr (JStr ''http://override.example/'') \<and>
   Map.empty (environmentVariable portalUrl) = (None :: string option) \<and>
   propertyDescriptor_get Map.empty portalUrl AzureCloud =
     Inr (JStr ''http://go.microsoft.com/fwlink/?LinkId=254433'')"
proof -
  have h1: "[''AZURE_PORTAL_URL'' \<mapsto> ''http://override.example/'']
      (environmentVariable portalUrl) = Some ''http://override.example/''"
    by (simp add: portalUrl_def)
  have h2: "''http://override.example/'' \<noteq> []" by simp
  have h3: "js_get (values AzureCloud) (param_name portalUrl) =
     JStr ''http://go.microsoft.com/fwlink/?LinkId=254433''"
    by (simp add: AzureCloud_def values_Environment js_get_def portalUrl_def)
  have h4: "Map.empty (environmentVariable portalUrl) = (None :: string option)" by simp
  have c1: "propertyDescriptor_get [''AZURE_PORTAL_URL'' \<mapsto> ''http://override.example/'']
      portalUrl AzureCloud = Inr (JStr ''http://override.example/'')"
    using read_prefers_environment_variable
      [of "[''AZURE_PORTAL_URL'' \<mapsto> ''http://override.example/'']" portalUrl
        "''http://override.example/''" AzureCloud] h1 h2 by blast
  have c2: "propertyDescriptor_get Map.empty portalUrl AzureCloud =
      (if js_get (values AzureCloud) (param_name portalUrl) = JNull
       then Inl (EndpointFieldNotDefined (param_name portalUrl))
       else Inr (js_get (values AzureCloud) (param_name portalUrl)))"
    using read_prefers_environment_variable [of Map.empty portalUrl "[]" AzureCloud] h4
    by blast
  have c3: "propertyDescriptor_get Map.empty portalUrl AzureCloud =
     Inr (JStr ''http://go.microsoft.com/fwlink/?LinkId=254433'')"
    unfolding c2 h3 by simp
  from h1 h3 h4 c1 c3 show ?thesis by blast
qed

text \<open>
  \<^bold>\<open>Claim C9.\<close> The setter of a parameter \<open>P\<close> changes \<^verbatim>\<open>values[P.name]\<close> and nothing else:
  the name of the environment and every other property of \<^verbatim>\<open>values\<close>, in particular the
  stored value of every other registered parameter, stay as they were. The setter
  neither reads nor writes the process environment, so a later read of \<open>P\<close> still returns
  the environment variable's value whenever that variable is set and non-empty.
\<close>

theorem set_changes_only_its_stored_value:
  fixes P :: EnvironmentParameter and E :: environment
  shows "name (propertyDescriptor_set P E v) = name E \<and>
         values (propertyDescriptor_set P E v) = (values E)(param_name P \<mapsto> v) \<and>
         (\<forall>k. k \<noteq> param_name P \<longrightarrow>
              values (propertyDescriptor_set P E v) k = values E k) \<and>
         (\<forall>Q \<in> set parameters. P \<in> set parameters \<and> Q \<noteq> P \<longrightarrow>
              values (propertyDescriptor_set P E v) (param_name Q) = values E (param_name Q)) \<and>
         (\<forall>penv s. penv (environmentVariable P) = Some s \<and> s \<noteq> [] \<longrightarrow>
              propertyDescriptor_get penv P (propertyDescriptor_set P E v) = Inr (JStr s))"
proof -
  have a: "name (propertyDescriptor_set P E v) = name E"
    by (simp add: propertyDescriptor_set_def)
  have b: "values (propertyDescriptor_set P E v) = (values E)(param_name P \<mapsto> v)"
    by (rule values_set)
  have c: "\<forall>k. k \<noteq> param_name P \<longrightarrow> values (propertyDescriptor_set P E v) k = values E k"
    by (simp add: b)
  have d: "\<forall>Q \<in> set parameters. P \<in> set parameters \<and> Q \<noteq> P \<longrightarrow>
      values (propertyDescriptor_set P E v) (param_name Q) = values E (param_name Q)"
    using parameter_name_inj by (auto simp add: b)
  have e: "\<forall>penv s. penv (environmentVariable P) = Some s \<and> s \<noteq> [] \<longrightarrow>
      propertyDescriptor_get penv P (propertyDescriptor_set P E v) = Inr (JStr s)"
    using get_env_wins by blast
  from a b c d e show ?thesis by blast
qed

theorem set_changes_only_its_stored_value_witness:
  "publishingProfileUrl \<in> set parameters \<and> portalUrl \<in> set parameters \<and>
   publishingProfileUrl \<noteq> portalUrl \<and>
   ''publishingProfileUrl'' \<noteq> param_name portalUrl \<and>
   [''AZURE_PORTAL_URL'' \<mapsto> ''http://override.example/''] (environmentVariable portalUrl) =
     Some ''http://override.example/'' \<and>
   name (propertyDescriptor_set portalUrl AzureCloud (JStr ''http://mine.example/'')) =
     name AzureCloud \<and>
   values (propertyDescriptor_set portalUrl AzureCloud (JStr ''http://mine.example/''))
     ''publishingProfileUrl'' = values AzureCloud ''publishingProfileUrl'' \<and>
   values (propertyDescriptor_set portalUrl AzureCloud (JStr ''http://mine.example/''))
     (param_name publishingProfileUrl) = values AzureCloud (param_name publishingProfileUrl) \<and>
   propertyDescriptor_get [''AZURE_PORTAL_URL'' \<mapsto> ''http://override.example/''] portalUrl
     (propertyDescriptor_set portalUrl AzureCloud (JStr ''http://mine.example/'')) =
     Inr (JStr ''http://override.example/'')"
proof -
  have h1: "publishingProfileUrl \<in> set parameters" "portalUrl \<in> set parameters"
    by (simp_all add: parameters_def)
  have h2: "publishingProfileUrl \<noteq> portalUrl"
    by (simp add: publishingProfileUrl_def portalUrl_def)
  have h3: "''publishingProfileUrl'' \<noteq> param_name portalUrl"
    by (simp add: portalUrl_def)
  have h4: "[''AZURE_PORTAL_URL'' \<mapsto> ''http://override.example/'']
      (environmentVariable portalUrl) = Some ''http://override.example/''"
    by (simp add: portalUrl_def)
  have h5: "''http://override.example/'' \<noteq> []" by simp
  note c = set_changes_only_its_stored_value
    [of portalUrl AzureCloud "JStr ''http://mine.example/''"]
  from c have c1: "name (propertyDescriptor_set portalUrl AzureCloud
      (JStr ''http://mine.example/'')) = name AzureCloud" by blast
  from c h3 have c2: "values (propertyDescriptor_set portalUrl AzureCloud
      (JStr ''http://mine.example/'')) ''publishingProfileUrl'' =
      values AzureCloud ''publishingProfileUrl''" by blast
  from c h1 h2 have c3: "values (propertyDescriptor_set portalUrl AzureCloud
      (JStr ''http://mine.example/'')) (param_name publishingProfileUrl) =
      values AzureCloud (param_name publishingProfileUrl)"
    by blast
  from c h4 h5 have c4: "propertyDescriptor_get
      [''AZURE_PORTAL_URL'' \<mapsto> ''http://override.example/''] portalUrl
     (propertyDescriptor_set portalUrl AzureCloud (JStr ''http://mine.example/'')) =
     Inr (JStr ''http://override.example/'')" by blast
  from h1 h2 h3 h4 c1 c2 c3 c4 show ?thesis by blast
qed

section \<open>Public environments\<close>

text \<open>
  \<^bold>\<open>Claim C8.\<close> \<^verbatim>\<open>isPublicEnvironment\<close> is computed, at each read, from the names of the
  catalog \<^verbatim>\<open>Environment.publicEnvironments\<close>: it is true exactly when the environment's name
  is \<^verbatim>\<open>'AzureCloud'\<close> or \<^verbatim>\<open>'AzureChinaCloud'\<close>. It is a function of the name alone, so no
  change of the stored values affects it.
\<close>

theorem isPublicEnvironment_iff_catalog_name:
  fixes E :: environment
  shows "isPublicEnvironment E = (name E \<in> set (map name publicEnvironments)) \<and>
         isPublicEnvironment E =
           (name E = JStr ''AzureCloud'' \<or> name E = JStr ''AzureChinaCloud'') \<and>
         isPublicEnvironment (E\<lparr>values := vs\<rparr>) = isPublicEnvironment E"
  by (auto simp add: isPublicEnvironment_def publicEnvironments_def AzureCloud_def
      AzureChinaCloud_def Environment_def js_get_def)

section \<open>Serialisation\<close>

lemma name_not_parameter: "''name'' \<notin> set (pluck_name parameters)"
  by (simp add: pluck_name_def parameters_def portalUrl_def publishingProfileUrl_def
      managementEndpointUrl_def resourceManagerEndpointUrl_def sqlManagementEndpointUrl_def
      sqlServerHostnameSuffix_def activeDirectoryEndpointUrl_def activeDirectoryResourceId_def
      commonTenantName_def galleryEndpointUrl_def activeDirectoryGraphResourceId_def
      activeDirectoryGraphApiVersion_def)

lemma Environment_stored:
  assumes "''name'' \<in> dom envData"
  shows "values (Environment envData) ''name'' = Some (name (Environment envData)) \<and>
         (\<forall>P \<in> set parameters. js_get (values (Environment envData)) (param_name P) \<noteq> JUndefined)"
proof -
  have "values (Environment envData) ''name'' = envData ''name''"
    using name_not_parameter by (simp add: values_Environment)
  moreover have "name (Environment envData) = js_get envData ''name''"
    by (simp add: Environment_def)
  ultimately have a: "values (Environment envData) ''name'' = Some (name (Environment envData))"
    using assms by (auto simp add: js_get_def)
  have b: "js_get (values (Environment envData)) (param_name P) \<noteq> JUndefined"
    if "P \<in> set parameters" for P
  proof -
    from that have "param_name P \<in> set (pluck_name parameters)"
      by (simp add: pluck_name_def)
    then show ?thesis
      by (simp add: values_Environment js_get_def split: option.splits)
  qed
  from a b show ?thesis by blast
qed

lemma set_keeps_stored:
  fixes P :: EnvironmentParameter and E :: environment
  assumes "values E ''name'' = Some (name E)"
    and "\<forall>Q \<in> set parameters. js_get (values E) (param_name Q) \<noteq> JUndefined"
    and "P \<in> set parameters" and "v \<noteq> JUndefined"
  shows "values (propertyDescriptor_set P E v) ''name'' = Some (name (propertyDescriptor_set P E v)) \<and>
         (\<forall>Q \<in> set parameters.
            js_get (values (propertyDescriptor_set P E v)) (param_name Q) \<noteq> JUndefined)"
proof -
  from assms(3) have "param_name P \<in> set (pluck_name parameters)"
    by (simp add: pluck_name_def)
  with name_not_parameter have "param_name P \<noteq> ''name''" by auto
  with assms(1) have a: "values (propertyDescriptor_set P E v) ''name'' =
      Some (name (propertyDescriptor_set P E v))"
    by (simp add: propertyDescriptor_set_def)
  have b: "\<forall>Q \<in> set parameters.
      js_get (values (propertyDescriptor_set P E v)) (param_name Q) \<noteq> JUndefined"
    using assms(2,4) by (simp add: values_set js_get_def)
  from a b show ?thesis by blast
qed

lemma apply_sets_stored:
  assumes "\<forall>(P, v) \<in> set updates. P \<in> set parameters \<and> v \<noteq> JUndefined"
    and "values E ''name'' = Some (name E)"
    and "\<forall>Q \<in> set parameters. js_get (values E) (param_name Q) \<noteq> JUndefined"
  shows "values (apply_sets E updates) ''name'' = Some (name (apply_sets E updates)) \<and>
         (\<forall>Q \<in> set parameters. js_get (values (apply_sets E updates)) (param_name Q) \<noteq> JUndefined)"
  using assms
proof (induction updates arbitrary: E)
  case Nil
  then show ?case by (simp add: apply_sets_def)
next
  case (Cons u us)
  obtain P v where u: "u = (P, v)" by (cases u)
  from Cons.prems(1) u have pv: "P \<in> set parameters" "v \<noteq> JUndefined" by auto
  from Cons.prems(1) have rest: "\<forall>(P, v) \<in> set us. P \<in> set parameters \<and> v \<noteq> JUndefined"
    by auto
  note step = set_keeps_stored [OF Cons.prems(2) Cons.prems(3) pv]
  have "apply_sets E (u # us) = apply_sets (propertyDescriptor_set P E v) us"
    by (simp add: apply_sets_def u)
  with Cons.IH [OF rest conjunct1 [OF step] conjunct2 [OF step]] show ?case by simp
qed

lemma roundtrip_stored:
  fixes E :: environment
  assumes "values E ''name'' = Some (name E)"
    and "\<forall>Q \<in> set parameters. js_get (values E) (param_name Q) \<noteq> JUndefined"
  shows "toJSON E = values E" and "values (Environment (values E)) = values E"
proof -
  show "toJSON E = values E"
  proof
    fix k show "toJSON E k = values E k"
      using assms(1) by (cases "values E k") (auto simp add: toJSON_def underscore_extend_def map_add_def)
  qed
  show "values (Environment (values E)) = values E"
  proof
    fix k show "values (Environment (values E)) k = values E k"
      using assms(2) by (auto simp add: values_Environment pluck_name_def)
  qed
qed


lemma Environment_emits:
  "js_get (values (Environment envData)) ''name'' = name (Environment envData) \<and>
   (\<forall>P \<in> set parameters. values (Environment envData) (param_name P) \<noteq> None)"
proof -
  have "values (Environment envData) ''name'' = envData ''name''"
    using name_not_parameter by (simp add: values_Environment)
  then have a: "js_get (values (Environment envData)) ''name'' = name (Environment envData)"
    by (simp add: js_get_def Environment_def)
  have b: "values (Environment envData) (param_name P) \<noteq> None" if "P \<in> set parameters" for P
  proof -
    from that have "param_name P \<in> set (pluck_name parameters)"
      by (simp add: pluck_name_def)
    then show ?thesis
      by (cases "envData (param_name P)") (simp_all add: values_Environment js_get_def)
  qed
  from a b show ?thesis by blast
qed

lemma set_keeps_emitted:
  fixes P :: EnvironmentParameter and E :: environment
  assumes "js_get (values E) ''name'' = name E"
    and "\<forall>Q \<in> set parameters. values E (param_name Q) \<noteq> None"
    and "P \<in> set parameters"
  shows "js_get (values (propertyDescriptor_set P E v)) ''name'' =
           name (propertyDescriptor_set P E v) \<and>
         (\<forall>Q \<in> set parameters. values (propertyDescriptor_set P E v) (param_name Q) \<noteq> None)"
proof -
  from assms(3) have "param_name P \<in> set (pluck_name parameters)"
    by (simp add: pluck_name_def)
  with name_not_parameter have "param_name P \<noteq> ''name''" by auto
  with assms(1) have a: "js_get (values (propertyDescriptor_set P E v)) ''name'' =
      name (propertyDescriptor_set P E v)"
    by (simp add: propertyDescriptor_set_def js_get_def)
  have b: "\<forall>Q \<in> set parameters. values (propertyDescriptor_set P E v) (param_name Q) \<noteq> None"
    using assms(2) by (simp add: values_set)
  from a b show ?thesis by blast
qed

lemma apply_sets_emitted:
  assumes "\<forall>(P, v) \<in> set updates. P \<in> set parameters"
    and "js_get (values E) ''name'' = name E"
    and "\<forall>Q \<in> set parameters. values E (param_name Q) \<noteq> None"
  shows "js_get (values (apply_sets E updates)) ''name'' = name (apply_sets E updates) \<and>
         (\<forall>Q \<in> set parameters. values (apply_sets E updates) (param_name Q) \<noteq> None)"
  using assms
proof (induction updates arbitrary: E)
  case Nil
  then show ?case by (simp add: apply_sets_def)
next
  case (Cons u us)
  obtain P v where u: "u = (P, v)" by (cases u)
  from Cons.prems(1) u have p: "P \<in> set parameters" by auto
  from Cons.prems(1) have rest: "\<forall>(P, v) \<in> set us. P \<in> set parameters" by auto
  note step = set_keeps_emitted [OF Cons.prems(2) Cons.prems(3) p, of v]
  have "apply_sets E (u # us) = apply_sets (propertyDescriptor_set P E v) us"
    by (simp add: apply_sets_def u)
  with Cons.IH [OF rest conjunct1 [OF step] conjunct2 [OF step]] show ?case by simp
qed

lemma toJSON_emits:
  fixes E :: environment
  assumes "js_get (values E) ''name'' = name E"
    and "\<forall>Q \<in> set parameters. values E (param_name Q) \<noteq> None"
  shows "toJSON E ''name'' = Some (name E) \<and>
         (\<forall>P \<in> set parameters.
            toJSON E (param_name P) = values E (param_name P) \<and>
            toJSON E (param_name P) \<noteq> None)"
proof -
  have a: "toJSON E ''name'' = Some (name E)"
    using assms(1)
    by (cases "values E ''name''")
      (simp_all add: toJSON_def underscore_extend_def map_add_def js_get_def)
  have b: "toJSON E (param_name P) = values E (param_name P) \<and> toJSON E (param_name P) \<noteq> None"
    if "P \<in> set parameters" for P
  proof -
    from that assms(2) have "values E (param_name P) \<noteq> None" by blast
    then show ?thesis
      by (cases "values E (param_name P)")
        (simp_all add: toJSON_def underscore_extend_def map_add_def)
  qed
  from a b show ?thesis by blast
qed

text \<open>
  \<^bold>\<open>Claim C5\<close> states the round trip for every environment. It fails for two kinds of
  environment that the code accepts. Constructed from \<^verbatim>\<open>{}\<close>, the environment has no
  \<^verbatim>\<open>name\<close> in its \<^verbatim>\<open>values\<close>, but \<^verbatim>\<open>toJSON()\<close> emits \<^verbatim>\<open>name: undefined\<close>, which the
  reconstructed \<^verbatim>\<open>values\<close> then holds. And after a setter has stored \<^verbatim>\<open>undefined\<close>, the
  constructor's defaults turn the emitted \<^verbatim>\<open>undefined\<close> into \<^verbatim>\<open>null\<close>.
\<close>

theorem toJSON_roundtrip_counterexample:
  "values (Environment Map.empty) ''name'' = None \<and>
   values (Environment (toJSON (Environment Map.empty))) ''name'' = Some JUndefined \<and>
   values (Environment (toJSON (Environment Map.empty))) \<noteq> values (Environment Map.empty) \<and>
   values (propertyDescriptor_set portalUrl (Environment (map_of [(''name'', JStr ''custom'')]))
             JUndefined) ''portalUrl'' = Some JUndefined \<and>
   values (Environment (toJSON (propertyDescriptor_set portalUrl
             (Environment (map_of [(''name'', JStr ''custom'')])) JUndefined))) ''portalUrl'' =
     Some JNull \<and>
   values (Environment (toJSON (propertyDescriptor_set portalUrl
             (Environment (map_of [(''name'', JStr ''custom'')])) JUndefined))) \<noteq>
   values (propertyDescriptor_set portalUrl (Environment (map_of [(''name'', JStr ''custom'')]))
             JUndefined)"
proof -
  let ?E0 = "Environment Map.empty"
  let ?E1 = "propertyDescriptor_set portalUrl (Environment (map_of [(''name'', JStr ''custom'')]))
             JUndefined"
  have p: "''portalUrl'' \<in> set (pluck_name parameters)"
    by (simp add: pluck_name_def parameters_def portalUrl_def)
  have a: "values ?E0 ''name'' = None"
    using name_not_parameter by (simp add: values_Environment)
  have "name ?E0 = JUndefined" by (simp add: Environment_def js_get_def)
  with a have "toJSON ?E0 ''name'' = Some JUndefined"
    by (simp add: toJSON_def underscore_extend_def map_add_def)
  then have b: "values (Environment (toJSON ?E0)) ''name'' = Some JUndefined"
    using name_not_parameter by (simp add: values_Environment)
  from a b have c: "values (Environment (toJSON ?E0)) \<noteq> values ?E0" by auto
  have d: "values ?E1 ''portalUrl'' = Some JUndefined"
    by (simp add: values_set portalUrl_def)
  have "toJSON ?E1 ''portalUrl'' = Some JUndefined"
    using d by (simp add: toJSON_def underscore_extend_def map_add_def)
  then have e: "values (Environment (toJSON ?E1)) ''portalUrl'' = Some JNull"
    using p by (simp add: values_Environment js_get_def)
  from d e have f: "values (Environment (toJSON ?E1)) \<noteq> values ?E1" by auto
  from a b c d e f show ?thesis by blast
qed

text \<open>
  \<^bold>\<open>Claim C5, amended.\<close> Let \<open>E\<close> be an environment made by the constructor and then changed
  only through the setters of registered parameters. Then \<^verbatim>\<open>toJSON()\<close> emits the name and,
  for every registered parameter, the raw stored value, \<^verbatim>\<open>null\<close>s included; the process
  environment is not an input of \<^verbatim>\<open>toJSON\<close>. If moreover the constructor's data had a
  \<^verbatim>\<open>name\<close> property and no setter stored \<^verbatim>\<open>undefined\<close>, the constructor applied to the
  emitted object yields a \<^verbatim>\<open>values\<close> map equal to that of \<open>E\<close>.
\<close>

theorem toJSON_roundtrip_keeps_stored_values:
  fixes E :: environment
  assumes "\<forall>(P, v) \<in> set updates. P \<in> set parameters"
    and "E = apply_sets (Environment envData) updates"
  shows "toJSON E ''name'' = Some (name E) \<and>
         (\<forall>P \<in> set parameters.
            toJSON E (param_name P) = values E (param_name P) \<and>
            toJSON E (param_name P) \<noteq> None) \<and>
         (''name'' \<in> dom envData \<and> (\<forall>(P, v) \<in> set updates. v \<noteq> JUndefined) \<longrightarrow>
            values (Environment (toJSON E)) = values E)"
proof -
  note em = apply_sets_emitted [OF assms(1) conjunct1 [OF Environment_emits [of envData]]
      conjunct2 [OF Environment_emits [of envData]], folded assms(2)]
  note a = toJSON_emits [OF conjunct1 [OF em] conjunct2 [OF em]]
  have b: "values (Environment (toJSON E)) = values E"
    if n: "''name'' \<in> dom envData" and d: "\<forall>(P, v) \<in> set updates. v \<noteq> JUndefined"
  proof -
    from assms(1) d have u: "\<forall>(P, v) \<in> set updates. P \<in> set parameters \<and> v \<noteq> JUndefined"
      by auto
    note st = apply_sets_stored [OF u conjunct1 [OF Environment_stored [OF n]]
        conjunct2 [OF Environment_stored [OF n]], folded assms(2)]
    note rt = roundtrip_stored [OF conjunct1 [OF st] conjunct2 [OF st]]
    from rt show ?thesis by simp
  qed
  from a b show ?thesis by blast
qed


theorem toJSON_roundtrip_keeps_stored_values_witness:
  "portalUrl \<in> set parameters \<and>
   ''name'' \<in> dom (map_of [(''name'', JStr ''custom'')]) \<and>
   JStr ''http://p.example/'' \<noteq> JUndefined \<and>
   toJSON (apply_sets (Environment (map_of [(''name'', JStr ''custom'')]))
             [(portalUrl, JStr ''http://p.example/'')]) ''name'' = Some (JStr ''custom'') \<and>
   toJSON (apply_sets (Environment (map_of [(''name'', JStr ''custom'')]))
             [(portalUrl, JStr ''http://p.example/'')]) ''portalUrl'' =
     Some (JStr ''http://p.example/'') \<and>
   toJSON (apply_sets (Environment (map_of [(''name'', JStr ''custom'')]))
             [(portalUrl, JStr ''http://p.example/'')]) ''commonTenantName'' = Some JNull \<and>
   propertyDescriptor_get [''AZURE_PORTAL_URL'' \<mapsto> ''http://override.example/''] portalUrl
     (apply_sets (Environment (map_of [(''name'', JStr ''custom'')]))
             [(portalUrl, JStr ''http://p.example/'')]) = Inr (JStr ''http://override.example/'') \<and>
   values (Environment (toJSON (apply_sets (Environment (map_of [(''name'', JStr ''custom'')]))
             [(portalUrl, JStr ''http://p.example/'')]))) =
   values (apply_sets (Environment (map_of [(''name'', JStr ''custom'')]))
             [(portalUrl, JStr ''http://p.example/'')])"
proof -
  let ?d = "map_of [(''name'', JStr ''custom'')]"
  let ?E = "apply_sets (Environment ?d) [(portalUrl, JStr ''http://p.example/'')]"
  have h1: "''name'' \<in> dom ?d" by simp
  have h2: "portalUrl \<in> set parameters" by (simp add: parameters_def)
  have h3: "JStr ''http://p.example/'' \<noteq> JUndefined" by simp
  have h4: "\<forall>(P, v) \<in> set [(portalUrl, JStr ''http://p.example/'')]. P \<in> set parameters"
    using h2 by simp
  have h5: "\<forall>(P, v) \<in> set [(portalUrl, JStr ''http://p.example/'')]. v \<noteq> JUndefined"
    by simp
  have h6: "commonTenantName \<in> set parameters" by (simp add: parameters_def)
  note c = toJSON_roundtrip_keeps_stored_values [OF h4 refl, of ?d]
  have v1: "values ?E ''portalUrl'' = Some (JStr ''http://p.example/'')"
    by (simp add: apply_sets_def values_set portalUrl_def)
  have v2: "values ?E ''commonTenantName'' = Some JNull"
    by (simp add: apply_sets_def values_set portalUrl_def values_Environment pluck_name_def
        parameters_def commonTenantName_def js_get_def)
  have n: "name ?E = JStr ''custom''"
    by (simp add: apply_sets_def propertyDescriptor_set_def Environment_def js_get_def)
  from c have a: "toJSON ?E ''name'' = Some (name ?E)" by blast
  from c h2 have t1: "toJSON ?E (param_name portalUrl) = values ?E (param_name portalUrl)"
    by blast
  from c h6 have t2: "toJSON ?E (param_name commonTenantName) =
      values ?E (param_name commonTenantName)" by blast
  have c1: "toJSON ?E ''name'' = Some (JStr ''custom'')" by (simp only: a n)
  have c2: "toJSON ?E ''portalUrl'' = Some (JStr ''http://p.example/'')"
    using t1 v1 by (simp add: portalUrl_def)
  have c3: "toJSON ?E ''commonTenantName'' = Some JNull"
    using t2 v2 by (simp add: commonTenantName_def)
  from c h1 h5 have c4: "values (Environment (toJSON ?E)) = values ?E" by blast
  have r: "propertyDescriptor_get [''AZURE_PORTAL_URL'' \<mapsto> ''http://override.example/'']
      portalUrl ?E = Inr (JStr ''http://override.example/'')"
    by (rule get_env_wins) (simp_all add: portalUrl_def)
  from h1 h2 h3 c1 c2 c3 r c4 show ?thesis by blast
qed

section \<open>The authentication configuration of an environment\<close>

lemma getAuthConfig_defaults:
  fixes E :: environment
  assumes "propertyDescriptor_get penv commonTenantName E = Inr t"
    and "propertyDescriptor_get penv activeDirectoryResourceId E = Inr r"
    and "propertyDescriptor_get penv activeDirectoryEndpointUrl E = Inr a"
  shows "getAuthConfig consts penv E JUndefined JUndefined =
           Inr \<lparr>authorityUrl = a, tenantId = t, resourceId = r,
                clientId = XPLAT_CLI_CLIENT_ID consts\<rparr>"
  using assms by (simp add: getAuthConfig_def)

lemma getAuthConfig_explicit:
  fixes E :: environment
  assumes "truthy tid" and "truthy rid"
    and "propertyDescriptor_get penv activeDirectoryEndpointUrl E = Inr a"
  shows "getAuthConfig consts penv E tid rid =
           Inr \<lparr>authorityUrl = a, tenantId = tid, resourceId = rid,
                clientId = XPLAT_CLI_CLIENT_ID consts\<rparr>"
  using assms by (simp add: getAuthConfig_def)

lemma getAuthConfig_clientId:
  fixes E :: environment
  assumes "getAuthConfig consts penv E tid rid = Inr cfg"
  shows "clientId cfg = XPLAT_CLI_CLIENT_ID consts"
  using assms by (auto simp add: getAuthConfig_def split: sum.splits if_splits)

lemma read_AzureCloud:
  "propertyDescriptor_get Map.empty commonTenantName AzureCloud = Inr (JStr ''common'')"
  "propertyDescriptor_get Map.empty activeDirectoryResourceId AzureCloud =
     Inr (JStr ''https://management.core.windows.net/'')"
  "propertyDescriptor_get Map.empty activeDirectoryEndpointUrl AzureCloud =
     Inr (JStr ''https://login.windows.net'')"
  by (simp_all add: propertyDescriptor_get_def process_env_get_def js_or_def js_get_def
      AzureCloud_def values_Environment commonTenantName_def activeDirectoryResourceId_def
      activeDirectoryEndpointUrl_def)

text \<open>
  \<^bold>\<open>Claim C7\<close> is stated for every environment. \<^verbatim>\<open>getAuthConfig\<close> reads its parameters
  through the accessors, which throw on an unresolved parameter: for an environment
  built from \<^verbatim>\<open>{name: 'custom'}\<close> and an empty process environment, \<^verbatim>\<open>getAuthConfig()\<close>
  returns no configuration but fails at \<^verbatim>\<open>commonTenantName\<close>.
\<close>

theorem getAuthConfig_unresolved_counterexample:
  "getAuthConfig \<lparr>XPLAT_CLI_CLIENT_ID = JStr ''client''\<rparr> Map.empty
     (Environment (map_of [(''name'', JStr ''custom'')])) JUndefined JUndefined =
   Inl (EndpointFieldNotDefined ''commonTenantName'')"
  by (simp add: getAuthConfig_def propertyDescriptor_get_def process_env_get_def js_or_def
      js_get_def values_Environment pluck_name_def parameters_def commonTenantName_def)

text \<open>
  \<^bold>\<open>Claim C7, amended.\<close> For every environment in which the parameters that
  \<^verbatim>\<open>getAuthConfig\<close> reads resolve: \<^verbatim>\<open>getAuthConfig()\<close> returns the resolved
  \<^verbatim>\<open>activeDirectoryEndpointUrl\<close> as \<^verbatim>\<open>authorityUrl\<close>, \<^verbatim>\<open>commonTenantName\<close> as \<^verbatim>\<open>tenantId\<close>,
  \<^verbatim>\<open>activeDirectoryResourceId\<close> as \<^verbatim>\<open>resourceId\<close> and the client constant as \<^verbatim>\<open>clientId\<close>;
  \<^verbatim>\<open>getAuthConfig('t1', 'r1')\<close> needs only \<^verbatim>\<open>activeDirectoryEndpointUrl\<close> and returns
  \<^verbatim>\<open>tenantId\<close> \<^verbatim>\<open>'t1'\<close> and \<^verbatim>\<open>resourceId\<close> \<^verbatim>\<open>'r1'\<close>. Whenever a call returns, for any
  environment and any arguments, \<^verbatim>\<open>clientId\<close> is the same constant. The function returns
  a value and no changed environment: it performs no mutation.
\<close>

theorem getAuthConfig_result:
  fixes E :: environment
  shows "(propertyDescriptor_get penv commonTenantName E = Inr t \<and>
          propertyDescriptor_get penv activeDirectoryResourceId E = Inr r \<and>
          propertyDescriptor_get penv activeDirectoryEndpointUrl E = Inr a \<longrightarrow>
            getAuthConfig consts penv E JUndefined JUndefined =
              Inr \<lparr>authorityUrl = a, tenantId = t, resourceId = r,
                   clientId = XPLAT_CLI_CLIENT_ID consts\<rparr>) \<and>
         (propertyDescriptor_get penv activeDirectoryEndpointUrl E = Inr a \<longrightarrow>
            getAuthConfig consts penv E (JStr ''t1'') (JStr ''r1'') =
              Inr \<lparr>authorityUrl = a, tenantId = JStr ''t1'', resourceId = JStr ''r1'',
                   clientId = XPLAT_CLI_CLIENT_ID consts\<rparr>) \<and>
         (\<forall>tid rid cfg. getAuthConfig consts penv E tid rid = Inr cfg \<longrightarrow>
            clientId cfg = XPLAT_CLI_CLIENT_ID consts)"
  using getAuthConfig_defaults [of penv E t r a "consts"]
    getAuthConfig_explicit [of "JStr ''t1''" "JStr ''r1''" penv E a "consts"]
    getAuthConfig_clientId [of "consts" penv E]
  by simp

theorem getAuthConfig_result_witness:
  "propertyDescriptor_get Map.empty commonTenantName AzureCloud = Inr (JStr ''common'') \<and>
   propertyDescriptor_get Map.empty activeDirectoryResourceId AzureCloud =
     Inr (JStr ''https://management.core.windows.net/'') \<and>
   propertyDescriptor_get Map.empty activeDirectoryEndpointUrl AzureCloud =
     Inr (JStr ''https://login.windows.net'') \<and>
   getAuthConfig \<lparr>XPLAT_CLI_CLIENT_ID = JStr ''client''\<rparr> Map.empty AzureCloud
     JUndefined JUndefined =
     Inr \<lparr>authorityUrl = JStr ''https://login.windows.net'', tenantId = JStr ''common'',
          resourceId = JStr ''https://management.core.windows.net/'',
          clientId = JStr ''client''\<rparr> \<and>
   getAuthConfig \<lparr>XPLAT_CLI_CLIENT_ID = JStr ''client''\<rparr> Map.empty AzureCloud
     (JStr ''t1'') (JStr ''r1'') =
     Inr \<lparr>authorityUrl = JStr ''https://login.windows.net'', tenantId = JStr ''t1'',
          resourceId = JStr ''r1'', clientId = JStr ''client''\<rparr>"
proof -
  note c = getAuthConfig_result [of Map.empty AzureCloud "JStr ''common''"
      "JStr ''https://management.core.windows.net/''" "JStr ''https://login.windows.net''"
      "\<lparr>XPLAT_CLI_CLIENT_ID = JStr ''client''\<rparr>"]
  from c read_AzureCloud have c1: "getAuthConfig \<lparr>XPLAT_CLI_CLIENT_ID = JStr ''client''\<rparr>
      Map.empty AzureCloud JUndefined JUndefined =
     Inr \<lparr>authorityUrl = JStr ''https://login.windows.net'', tenantId = JStr ''common'',
          resourceId = JStr ''https://management.core.windows.net/'',
          clientId = JStr ''client''\<rparr>" by simp
  from c read_AzureCloud have c2: "getAuthConfig \<lparr>XPLAT_CLI_CLIENT_ID = JStr ''client''\<rparr>
      Map.empty AzureCloud (JStr ''t1'') (JStr ''r1'') =
     Inr \<lparr>authorityUrl = JStr ''https://login.windows.net'', tenantId = JStr ''t1'',
          resourceId = JStr ''r1'', clientId = JStr ''client''\<rparr>" by simp
  from read_AzureCloud c1 c2 show ?thesis by blast
qed

section \<open>Portal URLs with a realm\<close>



lemma obj_set_map:
  assumes "\<And>k' v'. fst (f (k', v')) = k'"
  shows "map f (obj_set q k v) = obj_set (map f q) k (snd (f (k, v)))"
proof (induction q k v rule: obj_set.induct)
  case (1 k v)
  have "f (k, v) = (k, snd (f (k, v)))" using assms [of k v] by (cases "f (k, v)") simp
  then show ?case by simp
next
  case (2 k' v' kvs k v)
  have a: "f (k, v) = (k, snd (f (k, v)))" using assms [of k v] by (cases "f (k, v)") simp
  have b: "f (k', v') = (k', snd (f (k', v')))"
    using assms [of k' v'] by (cases "f (k', v')") simp
  show ?case
  proof (cases "k' = k")
    case True
    then show ?thesis using a b by (metis list.simps(9) obj_set.simps(2))
  next
    case False
    with 2 b show ?thesis by (metis list.simps(9) obj_set.simps(2))
  qed
qed














































section \<open>Properties of the account login\<close>

lemma addAccount_user_path:
  fixes collab :: "'sub collaborators" and self :: environment
  assumes "\<not> truthy sp"
    and "getSubscriptions collab self (normalizeUserName collab username) password tenant =
           (err, subscriptions)"
  shows "addAccount cs collab penv self username password tenant sp =
           Inr (Call_getSubscriptions self (normalizeUserName collab username) password tenant #
                processSubscriptions collab self (normalizeUserName collab username) tenant
                  (JStr ''user'') err subscriptions)"
  using assms by (simp add: addAccount_def Let_def)


lemma addAccount_token_error:
  fixes collab :: "'sub collaborators" and self :: environment
  assumes "truthy sp" and "getAuthConfig cs penv self tenant JUndefined = Inr cfg"
    and "acquireServicePrincipalToken collab cfg (normalizeUserName collab username) password =
           (err, token)"
    and "truthy err"
  shows "addAccount cs collab penv self username password tenant sp =
           Inr [Call_acquireServicePrincipalToken cfg (normalizeUserName collab username) password,
                Callback1 err]"
  using assms by (simp add: addAccount_def Let_def)

lemma addAccount_token_ok:
  fixes collab :: "'sub collaborators" and self :: environment
  assumes "truthy sp" and "getAuthConfig cs penv self tenant JUndefined = Inr cfg"
    and "acquireServicePrincipalToken collab cfg (normalizeUserName collab username) password =
           (terr, token)"
    and "\<not> truthy terr"
    and "getSubscriptionsFromTenants collab self (normalizeUserName collab username)
           [\<lparr>ti_tenantId = tenant, ti_authContext = token\<rparr>] = (err, subscriptions)"
  shows "addAccount cs collab penv self username password tenant sp =
           Inr (Call_acquireServicePrincipalToken cfg (normalizeUserName collab username) password #
                Call_getSubscriptionsFromTenants self (normalizeUserName collab username)
                  [\<lparr>ti_tenantId = tenant, ti_authContext = token\<rparr>] #
                processSubscriptions collab self (normalizeUserName collab username) tenant
                  (JStr ''servicePrincipal'') err subscriptions)"
  using assms by (simp add: addAccount_def Let_def)

lemma processSubscriptions_error:
  fixes collab :: "'sub collaborators" and self :: environment
  shows "truthy err \<Longrightarrow>
    processSubscriptions collab self username tenant userType err subscriptions = [Callback1 err]"
  by (simp add: processSubscriptions_def)

lemma processSubscriptions_success:
  fixes collab :: "'sub collaborators" and self :: environment
  shows "\<not> truthy err \<Longrightarrow>
    processSubscriptions collab self username tenant userType err (Some raw) =
      [Callback2 JNull (map (\<lambda>s. Subscription collab
          \<lparr>sub_id = js_get s ''subscriptionId'',
           sub_name = (if truthy (js_get s ''displayName'') then js_get s ''displayName''
                       else js_get s ''subscriptionName''),
           sub_user = \<lparr>user_name = username, user_tenant = tenant, user_type = userType\<rparr>,
           sub_tenantId = (if truthy (js_get s ''activeDirectoryTenantId'')
                           then js_get s ''activeDirectoryTenantId'' else tenant)\<rparr> self) raw)]"
  by (simp add: processSubscriptions_def underscore_map_def js_or_def Let_def)



lemma example_getAuthConfig:
  "getAuthConfig example_constants Map.empty AzureCloud (JStr ''tenantX'') JUndefined =
     Inr example_auth_config"
  by (simp add: getAuthConfig_def example_constants_def example_auth_config_def
      propertyDescriptor_get_def process_env_get_def js_or_def js_get_def
      AzureCloud_def values_Environment activeDirectoryResourceId_def
      activeDirectoryEndpointUrl_def)


text \<open>
  \<^bold>\<open>Claim C3.\<close> In every invocation of \<^verbatim>\<open>addAccount\<close> that succeeds, on either path, the
  callback is called once, as \<^verbatim>\<open>callback(null, subs)\<close>, where \<^verbatim>\<open>subs\<close> is the raw list that the
  lookup collaborator passed, mapped record by record and in its order to
  \<^verbatim>\<open>new Subscription({id, name, user: {name, tenant, type}, tenantId}, self)\<close>: \<^verbatim>\<open>id\<close> is the
  record's \<^verbatim>\<open>subscriptionId\<close>; \<^verbatim>\<open>name\<close> is its \<^verbatim>\<open>displayName\<close> when that is truthy and its
  \<^verbatim>\<open>subscriptionName\<close> otherwise (so \<^verbatim>\<open>undefined\<close> when the record has neither);
  \<^verbatim>\<open>user.type\<close> is \<^verbatim>\<open>'user'\<close> when \<^verbatim>\<open>loginAsServicePrincipal\<close> is falsy and
  \<^verbatim>\<open>'servicePrincipal'\<close> when it is truthy; \<^verbatim>\<open>tenantId\<close> is the record's
  \<^verbatim>\<open>activeDirectoryTenantId\<close> when the record has one (a truthy value) and the \<^verbatim>\<open>tenant\<close>
  argument otherwise.
\<close>

theorem addAccount_maps_subscriptions:
  fixes collab :: "'sub collaborators" and self :: environment
  shows
    "(\<not> truthy sp \<and>
      getSubscriptions collab self (normalizeUserName collab username) password tenant =
        (err, Some raw) \<and>
      \<not> truthy err \<longrightarrow>
        addAccount cs collab penv self username password tenant sp =
          Inr [Call_getSubscriptions self (normalizeUserName collab username) password tenant,
               Callback2 JNull (map (\<lambda>s. Subscription collab
                 \<lparr>sub_id = js_get s ''subscriptionId'',
                  sub_name = (if truthy (js_get s ''displayName'') then js_get s ''displayName''
                              else js_get s ''subscriptionName''),
                  sub_user = \<lparr>user_name = normalizeUserName collab username,
                              user_tenant = tenant, user_type = JStr ''user''\<rparr>,
                  sub_tenantId = (if truthy (js_get s ''activeDirectoryTenantId'')
                                  then js_get s ''activeDirectoryTenantId'' else tenant)\<rparr>
                 self) raw)]) \<and>
     (truthy sp \<and>
      getAuthConfig cs penv self tenant JUndefined = Inr cfg \<and>
      acquireServicePrincipalToken collab cfg (normalizeUserName collab username) password =
        (terr, token) \<and>
      \<not> truthy terr \<and>
      getSubscriptionsFromTenants collab self (normalizeUserName collab username)
        [\<lparr>ti_tenantId = tenant, ti_authContext = token\<rparr>] = (err, Some raw) \<and>
      \<not> truthy err \<longrightarrow>
        addAccount cs collab penv self username password tenant sp =
          Inr [Call_acquireServicePrincipalToken cfg (normalizeUserName collab username) password,
               Call_getSubscriptionsFromTenants self (normalizeUserName collab username)
                 [\<lparr>ti_tenantId = tenant, ti_authContext = token\<rparr>],
               Callback2 JNull (map (\<lambda>s. Subscription collab
                 \<lparr>sub_id = js_get s ''subscriptionId'',
                  sub_name = (if truthy (js_get s ''displayName'') then js_get s ''displayName''
                              else js_get s ''subscriptionName''),
                  sub_user = \<lparr>user_name = normalizeUserName collab username,
                              user_tenant = tenant, user_type = JStr ''servicePrincipal''\<rparr>,
                  sub_tenantId = (if truthy (js_get s ''activeDirectoryTenantId'')
                                  then js_get s ''activeDirectoryTenantId'' else tenant)\<rparr>
                 self) raw)])"
  by (simp add: addAccount_user_path addAccount_token_ok processSubscriptions_success)

theorem addAccount_maps_subscriptions_witness:
  "\<not> truthy (JBool False) \<and> \<not> truthy JNull \<and> truthy (JBool True) \<and>
   getSubscriptions example_collaborators AzureCloud
     (normalizeUserName example_collaborators (JStr ''Alice'')) (JStr ''pw'') (JStr ''tenant1'') =
     (JNull, Some [map_of [(''subscriptionId'', JStr ''s1''), (''displayName'', JStr ''Sub1''),
                           (''activeDirectoryTenantId'', JStr ''tenant1'')]]) \<and>
   addAccount example_constants example_collaborators Map.empty AzureCloud
     (JStr ''Alice'') (JStr ''pw'') (JStr ''tenant1'') (JBool False) =
     Inr [Call_getSubscriptions AzureCloud (JStr ''alice'') (JStr ''pw'') (JStr ''tenant1''),
          Callback2 JNull
            [(\<lparr>sub_id = JStr ''s1'', sub_name = JStr ''Sub1'',
               sub_user = \<lparr>user_name = JStr ''alice'', user_tenant = JStr ''tenant1'',
                           user_type = JStr ''user''\<rparr>,
               sub_tenantId = JStr ''tenant1''\<rparr>, AzureCloud)]] \<and>
   getAuthConfig example_constants Map.empty AzureCloud (JStr ''tenantX'') JUndefined =
     Inr example_auth_config \<and>
   acquireServicePrincipalToken example_collaborators example_auth_config
     (normalizeUserName example_collaborators (JStr ''sp1'')) (JStr ''secret'') =
     (JNull, JObj 1) \<and>
   getSubscriptionsFromTenants example_collaborators AzureCloud
     (normalizeUserName example_collaborators (JStr ''sp1''))
     [\<lparr>ti_tenantId = JStr ''tenantX'', ti_authContext = JObj 1\<rparr>] =
     (JNull, Some [map_of [(''subscriptionId'', JStr ''s2'')]]) \<and>
   addAccount example_constants example_collaborators Map.empty AzureCloud
     (JStr ''sp1'') (JStr ''secret'') (JStr ''tenantX'') (JBool True) =
     Inr [Call_acquireServicePrincipalToken example_auth_config (JStr ''sp1'') (JStr ''secret''),
          Call_getSubscriptionsFromTenants AzureCloud (JStr ''sp1'')
            [\<lparr>ti_tenantId = JStr ''tenantX'', ti_authContext = JObj 1\<rparr>],
          Callback2 JNull
            [(\<lparr>sub_id = JStr ''s2'', sub_name = JUndefined,
               sub_user = \<lparr>user_name = JStr ''sp1'', user_tenant = JStr ''tenantX'',
                           user_type = JStr ''servicePrincipal''\<rparr>,
               sub_tenantId = JStr ''tenantX''\<rparr>, AzureCloud)]]"
proof -
  have t: "\<not> truthy (JBool False)" "\<not> truthy JNull" "truthy (JBool True)" by simp_all
  have g: "getSubscriptions example_collaborators AzureCloud
     (normalizeUserName example_collaborators (JStr ''Alice'')) (JStr ''pw'') (JStr ''tenant1'') =
     (JNull, Some [map_of [(''subscriptionId'', JStr ''s1''), (''displayName'', JStr ''Sub1''),
                           (''activeDirectoryTenantId'', JStr ''tenant1'')]])"
    by (simp add: example_collaborators_def)
  have n: "normalizeUserName example_collaborators (JStr ''Alice'') = JStr ''alice''"
    "normalizeUserName example_collaborators (JStr ''sp1'') = JStr ''sp1''"
    "Subscription example_collaborators = (\<lambda>d e. (d, e))"
    by (simp_all add: example_collaborators_def)
  have a: "acquireServicePrincipalToken example_collaborators example_auth_config
     (normalizeUserName example_collaborators (JStr ''sp1'')) (JStr ''secret'') = (JNull, JObj 1)"
    by (simp add: example_collaborators_def)
  have f: "getSubscriptionsFromTenants example_collaborators AzureCloud
     (normalizeUserName example_collaborators (JStr ''sp1''))
     [\<lparr>ti_tenantId = JStr ''tenantX'', ti_authContext = JObj 1\<rparr>] =
     (JNull, Some [map_of [(''subscriptionId'', JStr ''s2'')]])"
    by (simp add: example_collaborators_def)
  have c1: "addAccount example_constants example_collaborators Map.empty AzureCloud
     (JStr ''Alice'') (JStr ''pw'') (JStr ''tenant1'') (JBool False) =
     Inr [Call_getSubscriptions AzureCloud (JStr ''alice'') (JStr ''pw'') (JStr ''tenant1''),
          Callback2 JNull
            [(\<lparr>sub_id = JStr ''s1'', sub_name = JStr ''Sub1'',
               sub_user = \<lparr>user_name = JStr ''alice'', user_tenant = JStr ''tenant1'',
                           user_type = JStr ''user''\<rparr>,
               sub_tenantId = JStr ''tenant1''\<rparr>, AzureCloud)]]"
    using addAccount_maps_subscriptions [where collab = example_collaborators and self = AzureCloud
        and sp = "JBool False" and username = "JStr ''Alice''" and password = "JStr ''pw''"
        and tenant = "JStr ''tenant1''" and err = JNull and cs = example_constants
        and penv = Map.empty
        and raw = "[map_of [(''subscriptionId'', JStr ''s1''), (''displayName'', JStr ''Sub1''),
                           (''activeDirectoryTenantId'', JStr ''tenant1'')]]"] g
    by (simp add: n js_get_def)
  have c2: "addAccount example_constants example_collaborators Map.empty AzureCloud
     (JStr ''sp1'') (JStr ''secret'') (JStr ''tenantX'') (JBool True) =
     Inr [Call_acquireServicePrincipalToken example_auth_config (JStr ''sp1'') (JStr ''secret''),
          Call_getSubscriptionsFromTenants AzureCloud (JStr ''sp1'')
            [\<lparr>ti_tenantId = JStr ''tenantX'', ti_authContext = JObj 1\<rparr>],
          Callback2 JNull
            [(\<lparr>sub_id = JStr ''s2'', sub_name = JUndefined,
               sub_user = \<lparr>user_name = JStr ''sp1'', user_tenant = JStr ''tenantX'',
                           user_type = JStr ''servicePrincipal''\<rparr>,
               sub_tenantId = JStr ''tenantX''\<rparr>, AzureCloud)]]"
    using addAccount_maps_subscriptions [where collab = example_collaborators and self = AzureCloud
        and sp = "JBool True" and username = "JStr ''sp1''" and password = "JStr ''secret''"
        and tenant = "JStr ''tenantX''" and err = JNull and cs = example_constants
        and penv = Map.empty and cfg = example_auth_config and terr = JNull
        and token = "JObj 1"
        and raw = "[map_of [(''subscriptionId'', JStr ''s2'')]]"] example_getAuthConfig a f
    by (simp add: n js_get_def)
  from t g c1 example_getAuthConfig a f c2 show ?thesis by blast
qed


text \<open>
  \<^bold>\<open>Claim C4.\<close> On the service-principal path, once \<^verbatim>\<open>getAuthConfig(tenant)\<close> has
  returned: if token acquisition reports an error, \<^verbatim>\<open>addAccount\<close> calls the callback with
  that error alone and does nothing else, so the tenant lookup is not reached; if token
  acquisition succeeds and the tenant lookup reports an error, the callback is called
  with that error alone. In both cases no \<^verbatim>\<open>Subscription\<close> is built and the callback is
  never given a list.
\<close>

theorem addAccount_service_principal_error:
  fixes collab :: "'sub collaborators" and self :: environment
  shows
    "(truthy sp \<and>
      getAuthConfig cs penv self tenant JUndefined = Inr cfg \<and>
      acquireServicePrincipalToken collab cfg (normalizeUserName collab username) password =
        (err, token) \<and>
      truthy err \<longrightarrow>
        addAccount cs collab penv self username password tenant sp =
          Inr [Call_acquireServicePrincipalToken cfg (normalizeUserName collab username) password,
               Callback1 err]) \<and>
     (truthy sp \<and>
      getAuthConfig cs penv self tenant JUndefined = Inr cfg \<and>
      acquireServicePrincipalToken collab cfg (normalizeUserName collab username) password =
        (terr, token) \<and>
      \<not> truthy terr \<and>
      getSubscriptionsFromTenants collab self (normalizeUserName collab username)
        [\<lparr>ti_tenantId = tenant, ti_authContext = token\<rparr>] = (err, subscriptions) \<and>
      truthy err \<longrightarrow>
        addAccount cs collab penv self username password tenant sp =
          Inr [Call_acquireServicePrincipalToken cfg (normalizeUserName collab username) password,
               Call_getSubscriptionsFromTenants self (normalizeUserName collab username)
                 [\<lparr>ti_tenantId = tenant, ti_authContext = token\<rparr>],
               Callback1 err])"
  by (simp add: addAccount_token_error addAccount_token_ok processSubscriptions_error)

theorem addAccount_service_principal_error_witness:
  "truthy (JBool True) \<and> truthy (JObj 0) \<and> \<not> truthy JNull \<and> truthy (JObj 2) \<and>
   getAuthConfig example_constants Map.empty AzureCloud (JStr ''tenantX'') JUndefined =
     Inr example_auth_config \<and>
   acquireServicePrincipalToken example_collaborators example_auth_config
     (normalizeUserName example_collaborators (JStr ''sp1'')) (JStr ''wrong'') =
     (JObj 0, JUndefined) \<and>
   addAccount example_constants example_collaborators Map.empty AzureCloud
     (JStr ''sp1'') (JStr ''wrong'') (JStr ''tenantX'') (JBool True) =
     Inr [Call_acquireServicePrincipalToken example_auth_config (JStr ''sp1'') (JStr ''wrong''),
          Callback1 (JObj 0)] \<and>
   acquireServicePrincipalToken example_collaborators example_auth_config
     (normalizeUserName example_collaborators (JStr ''sp2'')) (JStr ''secret'') =
     (JNull, JObj 1) \<and>
   getSubscriptionsFromTenants example_collaborators AzureCloud
     (normalizeUserName example_collaborators (JStr ''sp2''))
     [\<lparr>ti_tenantId = JStr ''tenantX'', ti_authContext = JObj 1\<rparr>] = (JObj 2, None) \<and>
   addAccount example_constants example_collaborators Map.empty AzureCloud
     (JStr ''sp2'') (JStr ''secret'') (JStr ''tenantX'') (JBool True) =
     Inr [Call_acquireServicePrincipalToken example_auth_config (JStr ''sp2'') (JStr ''secret''),
          Call_getSubscriptionsFromTenants AzureCloud (JStr ''sp2'')
            [\<lparr>ti_tenantId = JStr ''tenantX'', ti_authContext = JObj 1\<rparr>],
          Callback1 (JObj 2)]"
proof -
  have t: "truthy (JBool True)" "truthy (JObj 0)" "\<not> truthy JNull" "truthy (JObj 2)"
    by simp_all
  have n: "normalizeUserName example_collaborators (JStr ''sp1'') = JStr ''sp1''"
    "normalizeUserName example_collaborators (JStr ''sp2'') = JStr ''sp2''"
    by (simp_all add: example_collaborators_def)
  have a1: "acquireServicePrincipalToken example_collaborators example_auth_config
     (normalizeUserName example_collaborators (JStr ''sp1'')) (JStr ''wrong'') =
     (JObj 0, JUndefined)"
    by (simp add: example_collaborators_def)
  have a2: "acquireServicePrincipalToken example_collaborators example_auth_config
     (normalizeUserName example_collaborators (JStr ''sp2'')) (JStr ''secret'') =
     (JNull, JObj 1)"
    by (simp add: example_collaborators_def)
  have f: "getSubscriptionsFromTenants example_collaborators AzureCloud
     (normalizeUserName example_collaborators (JStr ''sp2''))
     [\<lparr>ti_tenantId = JStr ''tenantX'', ti_authContext = JObj 1\<rparr>] = (JObj 2, None)"
    by (simp add: example_collaborators_def)
  have c1: "addAccount example_constants example_collaborators Map.empty AzureCloud
     (JStr ''sp1'') (JStr ''wrong'') (JStr ''tenantX'') (JBool True) =
     Inr [Call_acquireServicePrincipalToken example_auth_config (JStr ''sp1'') (JStr ''wrong''),
          Callback1 (JObj 0)]"
    using addAccount_service_principal_error [where collab = example_collaborators and self = AzureCloud
        and sp = "JBool True" and username = "JStr ''sp1''" and password = "JStr ''wrong''"
        and tenant = "JStr ''tenantX''" and err = "JObj 0" and cs = example_constants
        and penv = Map.empty and cfg = example_auth_config and token = JUndefined]
      example_getAuthConfig a1
    by (simp add: n)
  have c2: "addAccount example_constants example_collaborators Map.empty AzureCloud
     (JStr ''sp2'') (JStr ''secret'') (JStr ''tenantX'') (JBool True) =
     Inr [Call_acquireServicePrincipalToken example_auth_config (JStr ''sp2'') (JStr ''secret''),
          Call_getSubscriptionsFromTenants AzureCloud (JStr ''sp2'')
            [\<lparr>ti_tenantId = JStr ''tenantX'', ti_authContext = JObj 1\<rparr>],
          Callback1 (JObj 2)]"
    using addAccount_service_principal_error [where collab = example_collaborators and self = AzureCloud
        and sp = "JBool True" and username = "JStr ''sp2''" and password = "JStr ''secret''"
        and tenant = "JStr ''tenantX''" and err = "JObj 2" and cs = example_constants
        and penv = Map.empty and cfg = example_auth_config and token = "JObj 1"
        and terr = JNull and subscriptions = None]
      example_getAuthConfig a2 f
    by (simp add: n)
  from t example_getAuthConfig a1 c1 a2 f c2 show ?thesis by blast
qed




end
